theory Spec2Isabelle
  imports Main
begin

section \<open>Python values, objects and the store\<close>

text \<open>
  The program is one Python class, \<^verbatim>\<open>BinOpAst\<close> (binexp_parser.py). Its objects are
  mutable and the simplification rules overwrite the attributes of \<^verbatim>\<open>self\<close> with
  references taken from its children, so objects live in an explicit store: a list of
  objects, the address of an object being its index. Allocation appends to the list.

  An attribute of a Python object exists only once it has been assigned; every field of
  the record is therefore optional, and reading a field that holds \<open>None\<close> is the
  \<^verbatim>\<open>AttributeError\<close> Python raises. The attributes \<^verbatim>\<open>left\<close> and \<^verbatim>\<open>right\<close>
  hold either the Python constant \<^verbatim>\<open>False\<close> or a reference to another object.
\<close>

type_synonym addr = nat

datatype NodeType = number | operator

datatype pyval = PyFalse | PyRef addr

record BinOpAst =
  val :: "string option"
  type :: "NodeType option"
  left :: "pyval option"
  right :: "pyval option"

type_synonym heap = "BinOpAst list"

text \<open>
  \<open>AttributeError\<close> and \<open>IndexError\<close> are the Python exceptions the modelled code can
  raise. \<open>DanglingRef\<close> is no Python exception: it is the result of following a
  reference that lies outside the store, a state Python itself never reaches.
\<close>

datatype error = AttributeError | IndexError | DanglingRef

definition no_attrs :: BinOpAst where
  "no_attrs = \<lparr>val = None, type = None, left = None, right = None\<rparr>"

definition bind_res :: "error + 'a \<Rightarrow> ('a \<Rightarrow> error + 'b) \<Rightarrow> error + 'b" where
  "bind_res m f = (case m of Inl e \<Rightarrow> Inl e | Inr x \<Rightarrow> f x)"

text \<open>
  \<open>getattr field h v\<close> is the attribute read \<^verbatim>\<open>v.field\<close>: on \<^verbatim>\<open>False\<close> it raises
  (\<^verbatim>\<open>'bool' object has no attribute ...\<close>), on an object it raises when the attribute
  was never assigned.
\<close>

definition getattr :: "(BinOpAst \<Rightarrow> 'a option) \<Rightarrow> heap \<Rightarrow> pyval \<Rightarrow> error + 'a" where
  "getattr field h v =
     (case v of
        PyFalse \<Rightarrow> Inl AttributeError
      | PyRef a \<Rightarrow>
          if a < length h
          then (case field (h ! a) of None \<Rightarrow> Inl AttributeError | Some x \<Rightarrow> Inr x)
          else Inl DanglingRef)"

text \<open>\<open>get2 f g h self\<close> is the two-step read \<^verbatim>\<open>self.f.g\<close>.\<close>

definition get2 :: "(BinOpAst \<Rightarrow> pyval option) \<Rightarrow> (BinOpAst \<Rightarrow> 'a option) \<Rightarrow> heap \<Rightarrow> addr \<Rightarrow> error + 'a" where
  "get2 f g h self = bind_res (getattr f h (PyRef self)) (getattr g h)"

text \<open>The four attribute assignments \<^verbatim>\<open>self.val = v\<close>, \<^verbatim>\<open>self.type = t\<close>, ...\<close>

definition set_val :: "heap \<Rightarrow> addr \<Rightarrow> string \<Rightarrow> heap" where
  "set_val h a v = h[a := (h ! a)\<lparr>val := Some v\<rparr>]"

definition set_type :: "heap \<Rightarrow> addr \<Rightarrow> NodeType \<Rightarrow> heap" where
  "set_type h a t = h[a := (h ! a)\<lparr>type := Some t\<rparr>]"

definition set_left :: "heap \<Rightarrow> addr \<Rightarrow> pyval \<Rightarrow> heap" where
  "set_left h a x = h[a := (h ! a)\<lparr>left := Some x\<rparr>]"

definition set_right :: "heap \<Rightarrow> addr \<Rightarrow> pyval \<Rightarrow> heap" where
  "set_right h a x = h[a := (h ! a)\<lparr>right := Some x\<rparr>]"

section \<open>Strings and lists\<close>

text \<open>
  Tokens are ASCII strings. On ASCII text \<^verbatim>\<open>str.isnumeric()\<close> holds exactly of the
  non-empty strings of decimal digits, and on such a string \<^verbatim>\<open>int(s)\<close> is its decimal
  value. The source calls \<^verbatim>\<open>int\<close> only behind the \<^verbatim>\<open>isnumeric\<close> test of a
  short-circuit \<^verbatim>\<open>and\<close>, so \<open>py_int\<close> is only ever read on digit strings.
  Integers are unbounded, as Python's are; the interpreter's configurable limit on the
  number of digits \<^verbatim>\<open>int\<close> converts, like its limit on the depth of recursion, is
  not modelled.
\<close>

definition isdigit :: "char \<Rightarrow> bool" where
  "isdigit c = (c \<in> set ''0123456789'')"

definition isnumeric :: "string \<Rightarrow> bool" where
  "isnumeric s = (s \<noteq> [] \<and> list_all isdigit s)"

definition py_int :: "string \<Rightarrow> int" where
  "py_int s = foldl (\<lambda>n c. 10 * n + (int (of_char c) - 48)) 0 s"

text \<open>\<^verbatim>\<open>xs.pop(0)\<close>: removes and returns the first element, \<^verbatim>\<open>IndexError\<close> on \<^verbatim>\<open>[]\<close>.\<close>

definition pop0 :: "'a list \<Rightarrow> error + ('a \<times> 'a list)" where
  "pop0 xs = (case xs of [] \<Rightarrow> Inl IndexError | x # rest \<Rightarrow> Inr (x, rest))"

text \<open>\<^verbatim>\<open>' '.join(xs)\<close>, the tokens separated by single spaces.\<close>

fun join_spaces :: "string list \<Rightarrow> string" where
  "join_spaces [] = []"
| "join_spaces [x] = x"
| "join_spaces (x # y # ys) = x @ '' '' @ join_spaces (y # ys)"

section \<open>Construction: \<^verbatim>\<open>BinOpAst.__init__\<close> (lines 16--30)\<close>

text \<open>
  \<^verbatim>\<open>BinOpAst(prefix_list)\<close> allocates a fresh object without attributes and runs
  \<^verbatim>\<open>__init__\<close> on it. The token list is a mutable Python list shared by all the
  recursive calls; the model passes it through and returns what is left of it, together
  with the address of the new object and the new store. Nothing happens on an empty
  list (the guard of line 21): the object keeps no attribute.
\<close>

function BinOpAst_init :: "heap \<Rightarrow> string list \<Rightarrow> error + (addr \<times> heap \<times> string list)" where
  "BinOpAst_init h prefix_list =
     (let self = length h; h0 = h @ [no_attrs] in
      if prefix_list \<noteq> [] then
        (case pop0 prefix_list of
           Inl e \<Rightarrow> Inl e
         | Inr (v, pl1) \<Rightarrow>
             let h1 = set_val h0 self v in
             if isnumeric v then
               Inr (self, set_right (set_left (set_type h1 self number) self PyFalse) self PyFalse, pl1)
             else
               (case BinOpAst_init (set_type h1 self operator) pl1 of
                  Inl e \<Rightarrow> Inl e
                | Inr (l, h2, pl2) \<Rightarrow>
                    (case BinOpAst_init (set_left h2 self (PyRef l)) pl2 of
                       Inl e \<Rightarrow> Inl e
                     | Inr (r, h3, pl3) \<Rightarrow> Inr (self, set_right h3 self (PyRef r), pl3))))
      else Inr (self, h0, prefix_list))"
  by pat_completeness auto

text \<open>
  The second recursive call runs on the list the first one returns; it terminates
  because a call never returns a longer list than it was given.
\<close>

lemma BinOpAst_init_shorter:
  "BinOpAst_init_dom (h, pl) \<Longrightarrow> BinOpAst_init h pl = Inr (a, h', pl') \<Longrightarrow> length pl' \<le> length pl"
proof (induction h pl arbitrary: a h' pl' rule: BinOpAst_init.pinduct)
  case (1 h pl)
  show ?case
  proof (cases pl)
    case Nil
    with 1 show ?thesis by (simp add: BinOpAst_init.psimps)
  next
    case (Cons v pl1)
    show ?thesis
    proof (cases "isnumeric v")
      case True
      with 1(1,4) Cons show ?thesis by (simp add: BinOpAst_init.psimps pop0_def Let_def)
    next
      case False
      from 1(1,4) Cons False obtain l h2 pl2 r h3 where
        first: "BinOpAst_init (set_type (set_val (h @ [no_attrs]) (length h) v) (length h) operator) pl1 = Inr (l, h2, pl2)"
        and second: "BinOpAst_init (set_left h2 (length h) (PyRef l)) pl2 = Inr (r, h3, pl')"
        by (auto simp: BinOpAst_init.psimps pop0_def Let_def split: sum.splits)
      have "length pl2 \<le> length pl1"
        using 1(2)[OF refl refl _ _ refl refl False first] Cons by (simp add: pop0_def)
      moreover have "length pl' \<le> length pl2"
        using 1(3)[OF refl refl _ _ refl refl False first refl refl second] Cons by (simp add: pop0_def)
      ultimately show ?thesis using Cons by simp
    qed
  qed
qed

termination BinOpAst_init
proof (relation "measure (\<lambda>(h, pl). length pl)", goal_cases)
  case 1
  show ?case by simp
next
  case (2 h pl self h0 x2 v pl1 h1)
  then show ?case by (auto simp: pop0_def split: list.splits)
next
  case (3 h pl self h0 x2 v pl1 h1 x2a l y h2 pl2)
  then show ?case
    using BinOpAst_init_shorter[of "set_type h1 self operator" pl1 l h2 pl2]
    by (auto simp: pop0_def split: list.splits)
qed

declare BinOpAst_init.simps [simp del]

section \<open>Serialization: \<^verbatim>\<open>prefix_str\<close> (lines 46--55)\<close>

text \<open>
  The traversals follow references through the store, and on an arbitrary store nothing
  bounds them. They are partial functions: \<open>None\<close> is a traversal that does not return,
  \<open>Some (Inl e)\<close> one that raises \<open>e\<close>, \<open>Some (Inr x)\<close> one that returns \<open>x\<close>.
\<close>

definition bind_opt :: "(error + 'a) option \<Rightarrow> ('a \<Rightarrow> (error + 'b) option) \<Rightarrow> (error + 'b) option" where
  "bind_opt m f = Option.bind m (\<lambda>r. case r of Inl e \<Rightarrow> Some (Inl e) | Inr x \<Rightarrow> f x)"

lemma bind_opt_mono [partial_function_mono]:
  assumes mf: "mono_option B" and mg: "\<And>y. mono_option (\<lambda>f. C y f)"
  shows "mono_option (\<lambda>f. bind_opt (B f) (\<lambda>y. C y f))"
  unfolding bind_opt_def
proof (rule bind_mono[OF mf])
  fix r
  show "mono_option (\<lambda>f. case r of Inl e \<Rightarrow> Some (Inl e) | Inr x \<Rightarrow> C x f)"
    by (cases r) (simp_all add: mg option.const_mono)
qed

text \<open>
  \<^verbatim>\<open>match self.type\<close>: a number returns \<^verbatim>\<open>self.val\<close>, an operator returns
  \<^verbatim>\<open>self.val + ' ' + self.left.prefix_str() + ' ' + self.right.prefix_str()\<close>, evaluated
  from left to right. The receiver may be \<^verbatim>\<open>False\<close>, on which the method lookup raises.
\<close>

partial_function (option) prefix_str :: "heap \<Rightarrow> pyval \<Rightarrow> (error + string) option" where
  "prefix_str h self =
     bind_opt (Some (getattr type h self)) (\<lambda>t.
       case t of
         number \<Rightarrow> Some (getattr val h self)
       | operator \<Rightarrow>
           bind_opt (Some (getattr val h self)) (\<lambda>v.
           bind_opt (Some (getattr left h self)) (\<lambda>l.
           bind_opt (prefix_str h l) (\<lambda>ls.
           bind_opt (Some (getattr right h self)) (\<lambda>r.
           bind_opt (prefix_str h r) (\<lambda>rs.
           Some (Inr (v @ '' '' @ ls @ '' '' @ rs))))))))"

declare prefix_str.simps [code]

section \<open>The identity rules (lines 57--114)\<close>

text \<open>
  Both rules end in the same two blocks of assignments. \<open>become_right\<close> is lines 65--73
  (and 95--103): \<^verbatim>\<open>self\<close> takes the value, the type and, for an operator, the children
  of \<^verbatim>\<open>self.right\<close>. \<open>become_left\<close> is lines 77--85 (and 106--114), the same with
  \<^verbatim>\<open>self.left\<close>. Every statement reads the store the statement before it left: in
  \<open>become_left\<close> the assignment \<^verbatim>\<open>self.right = self.left.right\<close> (lines 82, 111) runs
  after \<^verbatim>\<open>self.left = self.left.left\<close> (lines 81, 110) and so reads the new
  \<^verbatim>\<open>self.left\<close>.
\<close>

definition become_right :: "heap \<Rightarrow> addr \<Rightarrow> error + heap" where
  "become_right h self =
     bind_res (get2 right val h self) (\<lambda>v. let h1 = set_val h self v in
     bind_res (get2 right type h1 self) (\<lambda>t. let h2 = set_type h1 self t in
     bind_res (get2 right type h2 self) (\<lambda>t'.
       if t' = operator then
         bind_res (get2 right left h2 self) (\<lambda>x. let h3 = set_left h2 self x in
         bind_res (get2 right right h3 self) (\<lambda>y. Inr (set_right h3 self y)))
       else Inr (set_right (set_left h2 self PyFalse) self PyFalse))))"

definition become_left :: "heap \<Rightarrow> addr \<Rightarrow> error + heap" where
  "become_left h self =
     bind_res (get2 left val h self) (\<lambda>v. let h1 = set_val h self v in
     bind_res (get2 left type h1 self) (\<lambda>t. let h2 = set_type h1 self t in
     bind_res (get2 left type h2 self) (\<lambda>t'.
       if t' = operator then
         bind_res (get2 left left h2 self) (\<lambda>x. let h3 = set_left h2 self x in
         bind_res (get2 left right h3 self) (\<lambda>y. Inr (set_right h3 self y)))
       else Inr (set_right (set_left h2 self PyFalse) self PyFalse))))"

definition additive_identity :: "heap \<Rightarrow> addr \<Rightarrow> error + heap" where
  "additive_identity h self =
     bind_res (getattr val h (PyRef self)) (\<lambda>v.
       if v = ''+'' then
         bind_res (get2 left val h self) (\<lambda>lv.
           if isnumeric lv \<and> py_int lv = 0 then become_right h self
           else
             bind_res (get2 right val h self) (\<lambda>rv.
               if isnumeric rv \<and> py_int rv = 0 then become_left h self
               else Inr h))
       else Inr h)"

definition multiplicative_identity :: "heap \<Rightarrow> addr \<Rightarrow> error + heap" where
  "multiplicative_identity h self =
     bind_res (getattr val h (PyRef self)) (\<lambda>v.
       if v = ''*'' then
         bind_res (get2 left val h self) (\<lambda>lv.
           if isnumeric lv \<and> py_int lv = 1 then become_right h self
           else
             bind_res (get2 right val h self) (\<lambda>rv.
               if isnumeric rv \<and> py_int rv = 1 then become_left h self
               else Inr h))
       else Inr h)"

section \<open>The driver: \<^verbatim>\<open>simplify_binops\<close> (lines 128--144)\<close>

text \<open>
  A method call \<^verbatim>\<open>x.simplify_binops()\<close> needs \<^verbatim>\<open>x\<close> to be an object; on \<^verbatim>\<open>False\<close>
  the lookup raises. The calls to \<^verbatim>\<open>mult_by_zero\<close> and \<^verbatim>\<open>constant_fold\<close> are
  commented out in the source (lines 143--144) and are no part of the pass.
\<close>

definition receiver :: "pyval \<Rightarrow> error + addr" where
  "receiver v = (case v of PyFalse \<Rightarrow> Inl AttributeError | PyRef a \<Rightarrow> Inr a)"

partial_function (option) simplify_binops :: "heap \<Rightarrow> addr \<Rightarrow> (error + heap) option" where
  "simplify_binops h self =
     bind_opt (Some (get2 left type h self)) (\<lambda>lt.
     bind_opt (if lt = operator
               then bind_opt (Some (bind_res (getattr left h (PyRef self)) receiver))
                      (\<lambda>l. simplify_binops h l)
               else Some (Inr h)) (\<lambda>h1.
     bind_opt (Some (get2 right type h1 self)) (\<lambda>rt.
     bind_opt (if rt = operator
               then bind_opt (Some (bind_res (getattr right h1 (PyRef self)) receiver))
                      (\<lambda>r. simplify_binops h1 r)
               else Some (Inr h1)) (\<lambda>h2.
     bind_opt (Some (additive_identity h2 self)) (\<lambda>h3.
     Some (multiplicative_identity h3 self))))))"

declare simplify_binops.simps [code]

section \<open>Pipelines\<close>

text \<open>
  \<open>built_prefix\<close> builds a tree from a token list in an empty store and serializes it.
  \<open>simplified_prefix\<close> is the body of the test loop (lines 161--163): build, simplify,
  serialize. \<open>twice_simplified_prefix\<close> runs the pass a second time on the same tree
  before serializing.
\<close>

definition built_prefix :: "string list \<Rightarrow> (error + string) option" where
  "built_prefix input_list =
     bind_opt (Some (BinOpAst_init [] input_list)) (\<lambda>(ast, h, rest).
     prefix_str h (PyRef ast))"

definition simplified :: "string list \<Rightarrow> (error + addr \<times> heap) option" where
  "simplified input_list =
     bind_opt (Some (BinOpAst_init [] input_list)) (\<lambda>(ast, h, rest).
     bind_opt (simplify_binops h ast) (\<lambda>h'. Some (Inr (ast, h'))))"

definition simplified_prefix :: "string list \<Rightarrow> (error + string) option" where
  "simplified_prefix input_list =
     bind_opt (simplified input_list) (\<lambda>(ast, h). prefix_str h (PyRef ast))"

definition twice_simplified_prefix :: "string list \<Rightarrow> (error + string) option" where
  "twice_simplified_prefix input_list =
     bind_opt (simplified input_list) (\<lambda>(ast, h).
     bind_opt (simplify_binops h ast) (\<lambda>h'.
     prefix_str h' (PyRef ast)))"

section \<open>Well-formed prefix expressions\<close>

text \<open>
  A token list is a well-formed prefix expression when it is a numeric literal, or a
  token that is no numeric literal followed by two well-formed expressions. (The
  constructor takes every non-numeric token for an operator.)
\<close>

inductive well_formed :: "string list \<Rightarrow> bool" where
  wf_number: "isnumeric n \<Longrightarrow> well_formed [n]"
| wf_operator: "\<not> isnumeric v \<Longrightarrow> well_formed xs \<Longrightarrow> well_formed ys \<Longrightarrow> well_formed (v # xs @ ys)"

text \<open>
  Expressions as terms, and the objects the constructor lays out for one from address
  \<open>a\<close> on: the node itself, then its left subtree, then its right subtree.
\<close>

datatype expr = Num string | Op string expr expr

fun tokens :: "expr \<Rightarrow> string list" where
  "tokens (Num n) = [n]"
| "tokens (Op v l r) = v # tokens l @ tokens r"

fun valid :: "expr \<Rightarrow> bool" where
  "valid (Num n) = isnumeric n"
| "valid (Op v l r) = (\<not> isnumeric v \<and> valid l \<and> valid r)"

fun layout :: "addr \<Rightarrow> expr \<Rightarrow> BinOpAst list" where
  "layout a (Num n) =
     [\<lparr>val = Some n, type = Some number, left = Some PyFalse, right = Some PyFalse\<rparr>]"
| "layout a (Op v l r) =
     \<lparr>val = Some v, type = Some operator, left = Some (PyRef (Suc a)),
      right = Some (PyRef (Suc a + length (tokens l)))\<rparr>
     # layout (Suc a) l @ layout (Suc a + length (tokens l)) r"

text \<open>
  The structural invariant of a node: a number has both children \<^verbatim>\<open>False\<close>, an
  operator has two children that are objects.
\<close>

definition is_ref :: "pyval option \<Rightarrow> bool" where
  "is_ref x = (case x of Some (PyRef a) \<Rightarrow> True | _ \<Rightarrow> False)"

definition node_ok :: "BinOpAst \<Rightarrow> bool" where
  "node_ok obj =
     (case type obj of
        None \<Rightarrow> False
      | Some number \<Rightarrow> left obj = Some PyFalse \<and> right obj = Some PyFalse
      | Some operator \<Rightarrow> is_ref (left obj) \<and> is_ref (right obj))"

section \<open>Evaluation lemmas\<close>

text \<open>
  The defining equations of the recursive functions, split by case so that the
  simplifier unfolds a call only once it knows which branch the call takes.
\<close>

lemma bind_res_simps [simp]:
  "bind_res (Inl e) f = Inl e" "bind_res (Inr x) f = f x"
  by (simp_all add: bind_res_def)

lemma bind_opt_simps [simp]:
  "bind_opt None f = None" "bind_opt (Some (Inl e)) f = Some (Inl e)" "bind_opt (Some (Inr x)) f = f x"
  by (simp_all add: bind_opt_def)

lemma init_empty: "BinOpAst_init h [] = Inr (length h, h @ [no_attrs], [])"
  by (simp add: BinOpAst_init.simps)

lemma init_number:
  "isnumeric v \<Longrightarrow> BinOpAst_init h (v # pl) =
     Inr (length h, h @ [\<lparr>val = Some v, type = Some number, left = Some PyFalse, right = Some PyFalse\<rparr>], pl)"
  by (simp add: BinOpAst_init.simps[of h "v # pl"] pop0_def set_val_def set_type_def set_left_def set_right_def
      no_attrs_def)

lemma init_operator:
  "\<not> isnumeric v \<Longrightarrow> BinOpAst_init h (v # pl) =
     bind_res (BinOpAst_init (h @ [\<lparr>val = Some v, type = Some operator, left = None, right = None\<rparr>]) pl)
       (\<lambda>(l, h2, pl2). bind_res (BinOpAst_init (set_left h2 (length h) (PyRef l)) pl2)
       (\<lambda>(r, h3, pl3). Inr (length h, set_right h3 (length h) (PyRef r), pl3)))"
  by (simp add: BinOpAst_init.simps[of h "v # pl"] pop0_def set_val_def set_type_def
      no_attrs_def bind_res_def Let_def split: sum.splits)

lemma prefix_str_number:
  "getattr type h self = Inr number \<Longrightarrow> prefix_str h self = Some (getattr val h self)"
  by (subst prefix_str.simps) simp

lemma prefix_str_error:
  "getattr type h self = Inl e \<Longrightarrow> prefix_str h self = Some (Inl e)"
  by (subst prefix_str.simps) simp

lemma prefix_str_operator:
  "getattr type h self = Inr operator \<Longrightarrow> prefix_str h self =
           bind_opt (Some (getattr val h self)) (\<lambda>v.
           bind_opt (Some (getattr left h self)) (\<lambda>l.
           bind_opt (prefix_str h l) (\<lambda>ls.
           bind_opt (Some (getattr right h self)) (\<lambda>r.
           bind_opt (prefix_str h r) (\<lambda>rs.
           Some (Inr (v @ '' '' @ ls @ '' '' @ rs)))))))"
  by (subst prefix_str.simps) simp

lemma list_update_numeral:
  "(x # xs)[numeral n := y] = x # xs[pred_numeral n := y]"
  by (simp add: numeral_eq_Suc)

lemmas eval_simps = init_empty init_number init_operator prefix_str_number prefix_str_error
  prefix_str_operator list_update_numeral simplify_binops.simps
  isnumeric_def isdigit_def py_int_def getattr_def get2_def set_left_def set_right_def set_val_def
  set_type_def simplified_def simplified_prefix_def
  become_left_def become_right_def additive_identity_def multiplicative_identity_def receiver_def

section \<open>Construction lays out the expression\<close>

lemma length_layout [simp]: "length (layout a e) = length (tokens e)"
  by (induction e arbitrary: a) simp_all

lemma tokens_nonempty [simp]: "tokens e \<noteq> []"
  by (cases e) simp_all

lemma well_formed_expr: "well_formed ts \<Longrightarrow> \<exists>e. valid e \<and> tokens e = ts"
proof (induction rule: well_formed.induct)
  case (wf_number n)
  then have "valid (Num n) \<and> tokens (Num n) = [n]" by simp
  then show ?case by blast
next
  case (wf_operator v xs ys)
  then obtain l r where "valid l" "tokens l = xs" "valid r" "tokens r = ys" by blast
  with wf_operator.hyps(1) have "valid (Op v l r) \<and> tokens (Op v l r) = v # xs @ ys" by simp
  then show ?case by blast
qed

lemma expr_well_formed: "valid e \<Longrightarrow> well_formed (tokens e)"
  by (induction e) (auto intro: well_formed.intros)

lemma init_layout:
  "valid e \<Longrightarrow> BinOpAst_init h (tokens e @ rest) = Inr (length h, h @ layout (length h) e, rest)"
proof (induction e arbitrary: h rest)
  case (Num n)
  then show ?case by (simp add: init_number)
next
  case (Op v l r)
  let ?p = "\<lparr>val = Some v, type = Some operator, left = None, right = None\<rparr>"
  let ?q = "\<lparr>val = Some v, type = Some operator, left = Some (PyRef (Suc (length h))), right = None\<rparr>"
  from Op.prems have v: "\<not> isnumeric v" and l: "valid l" and r: "valid r" by simp_all
  have 1: "BinOpAst_init (h @ [?p]) (tokens l @ tokens r @ rest)
             = Inr (Suc (length h), (h @ [?p]) @ layout (Suc (length h)) l, tokens r @ rest)"
    using Op.IH(1)[OF l, of "h @ [?p]" "tokens r @ rest"] by simp
  have 2: "set_left ((h @ [?p]) @ layout (Suc (length h)) l) (length h) (PyRef (Suc (length h)))
             = (h @ [?q]) @ layout (Suc (length h)) l"
    by (simp add: set_left_def list_update_append nth_append)
  have 3: "BinOpAst_init ((h @ [?q]) @ layout (Suc (length h)) l) (tokens r @ rest)
             = Inr (Suc (length h) + length (tokens l),
                    ((h @ [?q]) @ layout (Suc (length h)) l) @ layout (Suc (length h) + length (tokens l)) r, rest)"
    using Op.IH(2)[OF r, of "(h @ [?q]) @ layout (Suc (length h)) l" rest] by simp
  have "BinOpAst_init h (tokens (Op v l r) @ rest)
          = Inr (length h,
                 set_right (((h @ [?q]) @ layout (Suc (length h)) l) @ layout (Suc (length h) + length (tokens l)) r)
                   (length h) (PyRef (Suc (length h) + length (tokens l))),
                 rest)"
    apply (simp only: tokens.simps append_Cons append_assoc init_operator[OF v])
    apply (simp only: 1 2 3 bind_res_simps prod.case)
    apply simp
    done
  also have "\<dots> = Inr (length h, h @ layout (length h) (Op v l r), rest)"
    by (simp add: set_right_def list_update_append nth_append)
  finally show ?case .
qed

section \<open>Serialization reads the layout back\<close>

lemma join_spaces_Cons: "ts \<noteq> [] \<Longrightarrow> join_spaces (t # ts) = t @ '' '' @ join_spaces ts"
  by (cases ts) simp_all

lemma join_spaces_append:
  "xs \<noteq> [] \<Longrightarrow> ys \<noteq> [] \<Longrightarrow> join_spaces (xs @ ys) = join_spaces xs @ '' '' @ join_spaces ys"
proof (induction xs rule: join_spaces.induct)
  case 1
  then show ?case by simp
next
  case (2 x)
  then show ?case by (simp add: join_spaces_Cons)
next
  case (3 x y ys')
  then show ?case by simp
qed

lemma getattr_mid:
  "getattr f (h @ obj # post) (PyRef (length h)) = (case f obj of None \<Rightarrow> Inl AttributeError | Some x \<Rightarrow> Inr x)"
  by (simp add: getattr_def)

lemma prefix_layout:
  "prefix_str (h @ layout (length h) e @ post) (PyRef (length h)) = Some (Inr (join_spaces (tokens e)))"
proof (induction e arbitrary: h post)
  case (Num n)
  show ?case by (simp add: prefix_str_number getattr_mid)
next
  case (Op v l r)
  let ?q = "\<lparr>val = Some v, type = Some operator, left = Some (PyRef (Suc (length h))),
             right = Some (PyRef (Suc (length h) + length (tokens l)))\<rparr>"
  let ?H = "h @ layout (length h) (Op v l r) @ post"
  have H: "?H = h @ ?q # (layout (Suc (length h)) l @ layout (Suc (length h) + length (tokens l)) r @ post)"
    by simp
  have L: "prefix_str ?H (PyRef (Suc (length h))) = Some (Inr (join_spaces (tokens l)))"
    using Op.IH(1)[of "h @ [?q]" "layout (Suc (length h) + length (tokens l)) r @ post"] by simp
  have R: "prefix_str ?H (PyRef (Suc (length h) + length (tokens l))) = Some (Inr (join_spaces (tokens r)))"
    using Op.IH(2)[of "h @ [?q] @ layout (Suc (length h)) l" post] by simp
  have t: "getattr type ?H (PyRef (length h)) = Inr operator"
    and va: "getattr val ?H (PyRef (length h)) = Inr v"
    and le: "getattr left ?H (PyRef (length h)) = Inr (PyRef (Suc (length h)))"
    and ri: "getattr right ?H (PyRef (length h)) = Inr (PyRef (Suc (length h) + length (tokens l)))"
    unfolding H by (simp_all add: getattr_mid)
  have "prefix_str ?H (PyRef (length h))
          = Some (Inr (v @ '' '' @ join_spaces (tokens l) @ '' '' @ join_spaces (tokens r)))"
    by (simp only: prefix_str_operator[OF t] va le ri L R bind_opt_simps)
  then show ?case
    by (simp add: join_spaces_Cons join_spaces_append)
qed

lemma init_total:
  "\<exists>a h' pl'. BinOpAst_init h pl = Inr (a, h', pl') \<and> length pl' \<le> length pl"
proof (induction "length pl" arbitrary: h pl rule: less_induct)
  case less
  show ?case
  proof (cases pl)
    case Nil
    then show ?thesis by (simp add: init_empty)
  next
    case (Cons v pl1)
    show ?thesis
    proof (cases "isnumeric v")
      case True
      with Cons show ?thesis by (simp add: init_number)
    next
      case False
      let ?p = "\<lparr>val = Some v, type = Some operator, left = None, right = None\<rparr>"
      from less[of pl1 "h @ [?p]"] Cons obtain l h2 pl2 where
        1: "BinOpAst_init (h @ [?p]) pl1 = Inr (l, h2, pl2)" and s1: "length pl2 \<le> length pl1"
        by auto
      from less[of pl2 "set_left h2 (length h) (PyRef l)"] Cons s1 obtain r h3 pl3 where
        2: "BinOpAst_init (set_left h2 (length h) (PyRef l)) pl2 = Inr (r, h3, pl3)"
        and s2: "length pl3 \<le> length pl2"
        by auto
      from Cons s1 s2 show ?thesis by (simp add: init_operator[OF False] 1 2)
    qed
  qed
qed

lemma val_layout: "map val (layout a e) = map Some (tokens e)"
  by (induction e arbitrary: a) simp_all

lemma node_ok_layout: "list_all node_ok (layout a e)"
  by (induction e arbitrary: a) (simp_all add: node_ok_def is_ref_def)

text \<open>
  Every object of a tree built from a well-formed token list satisfies the structural
  invariant.
\<close>

lemma init_node_ok:
  assumes "well_formed ts"
  shows "\<exists>h. BinOpAst_init [] ts = Inr (0, h, []) \<and> list_all node_ok h"
proof -
  from assms obtain e where e: "valid e" "tokens e = ts"
    using well_formed_expr by blast
  from init_layout[OF e(1), of "[]" "[]"] e(2) node_ok_layout[of 0 e] show ?thesis
    by simp
qed

lemma not_numeric_ops [simp]: "\<not> isnumeric ''+''" "\<not> isnumeric ''*''"
  by (simp_all add: isnumeric_def isdigit_def)

lemma numeric_not_op: "isnumeric s \<Longrightarrow> s \<noteq> ''+'' \<and> s \<noteq> ''*''"
  using not_numeric_ops by auto

section \<open>The inputs used below are well-formed\<close>

lemma wf_digit:
  "well_formed [''0'']" "well_formed [''1'']" "well_formed [''2'']" "well_formed [''3'']"
  "well_formed [''4'']" "well_formed [''5'']" "well_formed [''7'']"
  by (rule wf_number, simp add: isnumeric_def isdigit_def)+

lemma wf_plus_3_4: "well_formed [''+'', ''3'', ''4'']"
  using wf_operator[of "''+''" "[''3'']" "[''4'']"] wf_digit by simp

lemma wf_plus_plus_3_4_0: "well_formed [''+'', ''+'', ''3'', ''4'', ''0'']"
  using wf_operator[of "''+''" "[''+'', ''3'', ''4'']" "[''0'']"] wf_plus_3_4 wf_digit by simp

lemma wf_times_3_4: "well_formed [''*'', ''3'', ''4'']"
  using wf_operator[of "''*''" "[''3'']" "[''4'']"] wf_digit by simp

lemma wf_times_times_3_4_1: "well_formed [''*'', ''*'', ''3'', ''4'', ''1'']"
  using wf_operator[of "''*''" "[''*'', ''3'', ''4'']" "[''1'']"] wf_times_3_4 wf_digit by simp

lemma wf_plus_times_2_3_0: "well_formed [''+'', ''*'', ''2'', ''3'', ''0'']"
proof -
  have "well_formed [''*'', ''2'', ''3'']"
    using wf_operator[of "''*''" "[''2'']" "[''3'']"] wf_digit by simp
  then show ?thesis
    using wf_operator[of "''+''" "[''*'', ''2'', ''3'']" "[''0'']"] wf_digit by simp
qed

lemma wf_plus_0_5: "well_formed [''+'', ''0'', ''5'']"
  using wf_operator[of "''+''" "[''0'']" "[''5'']"] wf_digit by simp

lemma wf_nested: "well_formed [''+'', ''+'', ''*'', ''+'', ''1'', ''2'', ''0'', ''7'', ''0'']"
proof -
  have a: "well_formed [''+'', ''1'', ''2'']"
    using wf_operator[of "''+''" "[''1'']" "[''2'']"] wf_digit by simp
  have m: "well_formed [''*'', ''+'', ''1'', ''2'', ''0'']"
    using wf_operator[of "''*''" "[''+'', ''1'', ''2'']" "[''0'']"] a wf_digit by simp
  have l: "well_formed [''+'', ''*'', ''+'', ''1'', ''2'', ''0'', ''7'']"
    using wf_operator[of "''+''" "[''*'', ''+'', ''1'', ''2'', ''0'']" "[''7'']"] m wf_digit by simp
  show ?thesis
    using wf_operator[of "''+''" "[''+'', ''*'', ''+'', ''1'', ''2'', ''0'', ''7'']" "[''0'']"] l wf_digit
    by simp
qed

section \<open>The properties\<close>

text \<open>
  C1 (additive identity, \<open>x + 0 = x\<close> and \<open>0 + x = x\<close> on serialized results). The
  property asks that \<^verbatim>\<open>+ x 0\<close> simplify to what \<^verbatim>\<open>x\<close> simplifies to. For the
  well-formed \<open>x = + 3 4\<close> the code does not: \<^verbatim>\<open>+ 3 4\<close> alone serializes to
  \<^verbatim>\<open>+ 3 4\<close>, while on \<^verbatim>\<open>+ + 3 4 0\<close> the right-zero branch of \<open>additive_identity\<close>
  leaves the root an operator whose right child is \<^verbatim>\<open>False\<close>, and serialization
  raises \<^verbatim>\<open>AttributeError\<close>. For \<open>x = + + 1 2 3\<close> nothing is raised and the result is
  the wrong expression \<^verbatim>\<open>+ + 1 2 2\<close>.
\<close>

theorem additive_identity_right_zero_diverges:
  "simplified_prefix [''+'', ''3'', ''4''] = Some (Inr ''+ 3 4'')
   \<and> simplified_prefix ([''+''] @ [''+'', ''3'', ''4''] @ [''0'']) = Some (Inl AttributeError)
   \<and> simplified_prefix [''+'', ''+'', ''1'', ''2'', ''3''] = Some (Inr ''+ + 1 2 3'')
   \<and> simplified_prefix ([''+''] @ [''+'', ''+'', ''1'', ''2'', ''3''] @ [''0'']) = Some (Inr ''+ + 1 2 2'')"
  by (simp add: eval_simps)

text \<open>
  C2 (multiplicative identity, \<open>x * 1 = x\<close> and \<open>1 * x = x\<close> on serialized results).
  The property asks that \<^verbatim>\<open>* x 1\<close> simplify to what \<^verbatim>\<open>x\<close> simplifies to. For the
  well-formed \<open>x = * 3 4\<close> the code does not: \<^verbatim>\<open>* 3 4\<close> alone serializes to
  \<^verbatim>\<open>* 3 4\<close>, while on \<^verbatim>\<open>* * 3 4 1\<close> the right-one branch of
  \<open>multiplicative_identity\<close> leaves the root an operator whose right child is
  \<^verbatim>\<open>False\<close>, and serialization raises \<^verbatim>\<open>AttributeError\<close>. For \<open>x = * * 2 3 4\<close> the
  result is the wrong expression \<^verbatim>\<open>* * 2 3 3\<close>.
\<close>

theorem multiplicative_identity_right_one_diverges:
  "simplified_prefix [''*'', ''3'', ''4''] = Some (Inr ''* 3 4'')
   \<and> simplified_prefix ([''*''] @ [''*'', ''3'', ''4''] @ [''1'']) = Some (Inl AttributeError)
   \<and> simplified_prefix [''*'', ''*'', ''2'', ''3'', ''4''] = Some (Inr ''* * 2 3 4'')
   \<and> simplified_prefix ([''*''] @ [''*'', ''*'', ''2'', ''3'', ''4''] @ [''1'']) = Some (Inr ''* * 2 3 3'')"
  by (simp add: eval_simps)

text \<open>
  C3 (every operator node has two children that are nodes, every number node has none,
  before and after simplification). The tree built from \<^verbatim>\<open>+ + 3 4 0\<close> satisfies the
  invariant at every node. After \<open>simplify_binops\<close> its root is an operator whose
  \<^verbatim>\<open>right\<close> is \<^verbatim>\<open>False\<close>: the invariant is not preserved.
\<close>

theorem simplify_breaks_operator_invariant:
  "BinOpAst_init [] [''+'', ''+'', ''3'', ''4'', ''0''] =
     Inr (0,
       [\<lparr>val = Some ''+'', type = Some operator, left = Some (PyRef 1), right = Some (PyRef 4)\<rparr>,
        \<lparr>val = Some ''+'', type = Some operator, left = Some (PyRef 2), right = Some (PyRef 3)\<rparr>,
        \<lparr>val = Some ''3'', type = Some number, left = Some PyFalse, right = Some PyFalse\<rparr>,
        \<lparr>val = Some ''4'', type = Some number, left = Some PyFalse, right = Some PyFalse\<rparr>,
        \<lparr>val = Some ''0'', type = Some number, left = Some PyFalse, right = Some PyFalse\<rparr>],
       [])
   \<and> node_ok \<lparr>val = Some ''+'', type = Some operator, left = Some (PyRef 1), right = Some (PyRef 4)\<rparr>
   \<and> simplified [''+'', ''+'', ''3'', ''4'', ''0''] =
     Some (Inr (0,
       [\<lparr>val = Some ''+'', type = Some operator, left = Some (PyRef 2), right = Some PyFalse\<rparr>,
        \<lparr>val = Some ''+'', type = Some operator, left = Some (PyRef 2), right = Some (PyRef 3)\<rparr>,
        \<lparr>val = Some ''3'', type = Some number, left = Some PyFalse, right = Some PyFalse\<rparr>,
        \<lparr>val = Some ''4'', type = Some number, left = Some PyFalse, right = Some PyFalse\<rparr>,
        \<lparr>val = Some ''0'', type = Some number, left = Some PyFalse, right = Some PyFalse\<rparr>]))
   \<and> \<not> node_ok \<lparr>val = Some ''+'', type = Some operator, left = Some (PyRef 2), right = Some PyFalse\<rparr>"
  by (simp add: eval_simps node_ok_def is_ref_def)

text \<open>
  C4 (a second simplification pass changes nothing and does not fail). On the
  well-formed input \<^verbatim>\<open>+ + * + 1 2 0 7 0\<close> one pass serializes to \<^verbatim>\<open>+ * + 1 2 0 0\<close>
  and two passes serialize to \<^verbatim>\<open>* + 1 2 2\<close>: the pass is not idempotent. On
  \<^verbatim>\<open>+ 0 5\<close> one pass gives \<^verbatim>\<open>5\<close> and the second pass raises \<^verbatim>\<open>AttributeError\<close>,
  the root now being a number.
\<close>

theorem simplify_not_idempotent:
  "simplified_prefix [''+'', ''+'', ''*'', ''+'', ''1'', ''2'', ''0'', ''7'', ''0'']
     = Some (Inr ''+ * + 1 2 0 0'')
   \<and> twice_simplified_prefix [''+'', ''+'', ''*'', ''+'', ''1'', ''2'', ''0'', ''7'', ''0'']
     = Some (Inr ''* + 1 2 2'')
   \<and> simplified_prefix [''+'', ''0'', ''5''] = Some (Inr ''5'')
   \<and> twice_simplified_prefix [''+'', ''0'', ''5''] = Some (Inl AttributeError)"
  by (simp add: eval_simps twice_simplified_prefix_def)

text \<open>
  C5 (simplification raises nothing on a well-formed tree, a single number included).
  On the well-formed input \<^verbatim>\<open>+ * 2 3 0\<close> the pass raises \<^verbatim>\<open>AttributeError\<close>: the
  right-zero branch of \<open>additive_identity\<close> turns the root into a \<^verbatim>\<open>*\<close> node whose
  right child is \<^verbatim>\<open>False\<close>, and \<open>multiplicative_identity\<close> then reads
  \<^verbatim>\<open>self.right.val\<close>. On the single number \<^verbatim>\<open>5\<close> the pass raises as well, at its
  first statement, which reads \<^verbatim>\<open>self.left.type\<close> where \<^verbatim>\<open>self.left\<close> is \<^verbatim>\<open>False\<close>.
\<close>

theorem simplify_raises_on_well_formed:
  "simplified [''+'', ''*'', ''2'', ''3'', ''0''] = Some (Inl AttributeError)
   \<and> simplified [''5''] = Some (Inl AttributeError)"
  by (simp add: eval_simps)

text \<open>
  C6 (a token list exhausted while an operand is still expected makes construction
  fail with a MalformedExpression error). As stated this does not hold: on \<^verbatim>\<open>+ 3\<close>
  the constructor returns normally; the missing operand is an object without
  attributes.
\<close>

theorem init_missing_operand_returns:
  "BinOpAst_init [] [''+'', ''3''] =
     Inr (0,
       [\<lparr>val = Some ''+'', type = Some operator, left = Some (PyRef 1), right = Some (PyRef 2)\<rparr>,
        \<lparr>val = Some ''3'', type = Some number, left = Some PyFalse, right = Some PyFalse\<rparr>,
        \<lparr>val = None, type = None, left = None, right = None\<rparr>],
       [])"
  by (simp add: eval_simps no_attrs_def)

text \<open>
  C6, as amended: construction never raises, whatever the token list. When the list
  ends after an operator and its first operand, the constructor returns the operator
  node with the objects of the first operand and, as right child, an object on which no
  attribute is set.
\<close>

theorem init_never_raises:
  "(\<exists>a h' rest. BinOpAst_init h pl = Inr (a, h', rest))
   \<and> (\<not> isnumeric v \<and> well_formed xs \<longrightarrow>
        (\<exists>objs. length objs = length xs
           \<and> BinOpAst_init h (v # xs) =
               Inr (length h,
                    h @ \<lparr>val = Some v, type = Some operator, left = Some (PyRef (Suc (length h))),
                         right = Some (PyRef (Suc (length h) + length xs))\<rparr>
                      # objs @ [\<lparr>val = None, type = None, left = None, right = None\<rparr>],
                    [])))"
proof (intro conjI impI)
  show "\<exists>a h' rest. BinOpAst_init h pl = Inr (a, h', rest)"
    using init_total[of h pl] by blast
next
  assume "\<not> isnumeric v \<and> well_formed xs"
  then have v: "\<not> isnumeric v" and "well_formed xs" by simp_all
  then obtain e where e: "valid e" "tokens e = xs"
    using well_formed_expr by blast
  let ?p = "\<lparr>val = Some v, type = Some operator, left = None, right = None\<rparr>"
  let ?q = "\<lparr>val = Some v, type = Some operator, left = Some (PyRef (Suc (length h))), right = None\<rparr>"
  have 1: "BinOpAst_init (h @ [?p]) xs = Inr (Suc (length h), (h @ [?p]) @ layout (Suc (length h)) e, [])"
    using init_layout[OF e(1), of "h @ [?p]" "[]"] e(2) by simp
  have 2: "set_left ((h @ [?p]) @ layout (Suc (length h)) e) (length h) (PyRef (Suc (length h)))
             = (h @ [?q]) @ layout (Suc (length h)) e"
    by (simp add: set_left_def list_update_append nth_append)
  have 3: "BinOpAst_init ((h @ [?q]) @ layout (Suc (length h)) e) []
             = Inr (Suc (length h) + length xs, ((h @ [?q]) @ layout (Suc (length h)) e) @ [no_attrs], [])"
    using e(2) by (simp add: init_empty)
  have "BinOpAst_init h (v # xs)
          = Inr (length h,
                 set_right (((h @ [?q]) @ layout (Suc (length h)) e) @ [no_attrs])
                   (length h) (PyRef (Suc (length h) + length xs)),
                 [])"
    by (simp only: init_operator[OF v] 1 2 3 bind_res_simps prod.case)
  then have "length (layout (Suc (length h)) e) = length xs
     \<and> BinOpAst_init h (v # xs) =
               Inr (length h,
                    h @ \<lparr>val = Some v, type = Some operator, left = Some (PyRef (Suc (length h))),
                         right = Some (PyRef (Suc (length h) + length xs))\<rparr>
                      # layout (Suc (length h)) e @ [\<lparr>val = None, type = None, left = None, right = None\<rparr>],
                    [])"
    using e(2) by (simp add: set_right_def list_update_append nth_append no_attrs_def)
  then show "\<exists>objs. length objs = length xs
           \<and> BinOpAst_init h (v # xs) =
               Inr (length h,
                    h @ \<lparr>val = Some v, type = Some operator, left = Some (PyRef (Suc (length h))),
                         right = Some (PyRef (Suc (length h) + length xs))\<rparr>
                      # objs @ [\<lparr>val = None, type = None, left = None, right = None\<rparr>],
                    [])"
    by blast
qed

theorem init_never_raises_witness:
  "(\<exists>a h' rest. BinOpAst_init [] [''+'', ''3''] = Inr (a, h', rest))
   \<and> \<not> isnumeric ''+'' \<and> well_formed [''3'']
   \<and> (\<exists>objs. length objs = length [''3'']
         \<and> BinOpAst_init [] [''+'', ''3''] =
             Inr (0,
                  \<lparr>val = Some ''+'', type = Some operator, left = Some (PyRef 1), right = Some (PyRef 2)\<rparr>
                    # objs @ [\<lparr>val = None, type = None, left = None, right = None\<rparr>],
                  []))"
proof -
  have h: "\<not> isnumeric ''+'' \<and> well_formed [''3'']"
    using wf_digit by simp
  with init_never_raises[of "[]" "[''+'', ''3'']" "''+''" "[''3'']"] show ?thesis
    by (simp add: numeral_2_eq_2)
qed

text \<open>
  C7 (serialization inverts construction). For every well-formed token list, the tree
  built from it serializes to the tokens joined by single spaces; for a single numeric
  token \<open>n\<close>, building \<open>[n]\<close> and serializing returns \<open>n\<close>.
\<close>

theorem prefix_str_inverts_init:
  "(well_formed ts \<longrightarrow> built_prefix ts = Some (Inr (join_spaces ts)))
   \<and> (isnumeric n \<longrightarrow> built_prefix [n] = Some (Inr n))"
proof (intro conjI impI)
  assume "well_formed ts"
  then obtain e where e: "valid e" "tokens e = ts"
    using well_formed_expr by blast
  have "BinOpAst_init [] ts = Inr (0, layout 0 e, [])"
    using init_layout[OF e(1), of "[]" "[]"] e(2) by simp
  moreover have "prefix_str (layout 0 e) (PyRef 0) = Some (Inr (join_spaces ts))"
    using prefix_layout[of "[]" e "[]"] e(2) by simp
  ultimately show "built_prefix ts = Some (Inr (join_spaces ts))"
    by (simp add: built_prefix_def)
next
  assume "isnumeric n"
  then show "built_prefix [n] = Some (Inr n)"
    by (simp add: built_prefix_def init_number prefix_str_number getattr_def)
qed

theorem prefix_str_inverts_init_witness:
  "well_formed [''+'', ''+'', ''3'', ''4'', ''0'']
   \<and> built_prefix [''+'', ''+'', ''3'', ''4'', ''0''] = Some (Inr ''+ + 3 4 0'')
   \<and> isnumeric ''42'' \<and> built_prefix [''42''] = Some (Inr ''42'')"
proof -
  have n: "isnumeric ''42''"
    by (simp add: isnumeric_def isdigit_def)
  from prefix_str_inverts_init[of "[''+'', ''+'', ''3'', ''4'', ''0'']" "''42''"] wf_plus_plus_3_4_0 n
  show ?thesis by simp
qed

text \<open>
  C8 (construction consumes the tokens from the front, each once, in order, and leaves
  the list empty). Built from a well-formed token list \<open>ts\<close> followed by any \<open>rest\<close>, the
  constructor returns exactly \<open>rest\<close> (the empty list when \<open>ts\<close> is the whole input), keeps
  the old store, and allocates one object per token, the \<open>i\<close>-th allocated object holding
  the \<open>i\<close>-th token.
\<close>

theorem init_consumes_tokens:
  assumes "well_formed ts"
  shows "\<exists>objs. BinOpAst_init h ts = Inr (length h, h @ objs, [])
               \<and> BinOpAst_init h (ts @ rest) = Inr (length h, h @ objs, rest)
               \<and> map val objs = map Some ts"
proof -
  from assms obtain e where e: "valid e" "tokens e = ts"
    using well_formed_expr by blast
  from init_layout[OF e(1), of h rest] init_layout[OF e(1), of h "[]"]
    val_layout[of "length h" e] e(2)
  show ?thesis
    by auto
qed

theorem init_consumes_tokens_witness:
  "well_formed [''+'', ''3'', ''4'']
   \<and> (\<exists>objs. BinOpAst_init [] [''+'', ''3'', ''4''] = Inr (0, objs, [])
         \<and> BinOpAst_init [] [''+'', ''3'', ''4'', ''9''] = Inr (0, objs, [''9''])
         \<and> map val objs = [Some ''+'', Some ''3'', Some ''4''])"
  using init_consumes_tokens[OF wf_plus_3_4, of "[]" "[''9'']"] wf_plus_3_4 by simp

text \<open>
  C9 (construction from the empty token list). The constructor raises nothing and
  returns an object on which none of \<^verbatim>\<open>val\<close>, \<^verbatim>\<open>type\<close>, \<^verbatim>\<open>left\<close>, \<^verbatim>\<open>right\<close> is
  set; serializing or simplifying that object raises \<^verbatim>\<open>AttributeError\<close>.
\<close>

theorem init_empty_list_no_attributes:
  "BinOpAst_init h [] = Inr (length h, h @ [\<lparr>val = None, type = None, left = None, right = None\<rparr>], [])
   \<and> prefix_str (h @ [\<lparr>val = None, type = None, left = None, right = None\<rparr>]) (PyRef (length h))
       = Some (Inl AttributeError)
   \<and> simplify_binops (h @ [\<lparr>val = None, type = None, left = None, right = None\<rparr>]) (length h)
       = Some (Inl AttributeError)"
  by (simp add: init_empty no_attrs_def prefix_str_error getattr_def get2_def simplify_binops.simps)

text \<open>
  C10 (the identity rules compare by integer value). Let \<open>z\<close> be any numeric text whose
  value is 0 and \<open>u\<close> any numeric text whose value is 1. On a \<^verbatim>\<open>+\<close> node whose left
  operand reads \<open>z\<close>, \<open>additive_identity\<close> replaces the node by its right operand; on one
  whose right operand reads \<open>z\<close>, and whose left operand did not pass the test, it
  replaces the node by its left operand; \<open>multiplicative_identity\<close> does the same on a
  \<^verbatim>\<open>*\<close> node with \<open>u\<close>. In the whole pipeline, with a numeric operand \<open>n\<close>: \<^verbatim>\<open>+ z n\<close>
  and \<^verbatim>\<open>* u n\<close> simplify to \<open>n\<close>, as they do for the literals \<^verbatim>\<open>0\<close> and \<^verbatim>\<open>1\<close>;
  \<^verbatim>\<open>+ n z\<close> and \<^verbatim>\<open>* n u\<close> simplify to \<open>n\<close>, unless \<open>n\<close> is itself the identity
  value, in which case the left operand is dropped first and the right one remains.
\<close>

theorem identity_rules_compare_by_value:
  assumes "isnumeric z" "py_int z = 0" "isnumeric u" "py_int u = 1" "isnumeric n"
  shows "(getattr val h (PyRef self) = Inr ''+'' \<and> get2 left val h self = Inr z
            \<longrightarrow> additive_identity h self = become_right h self)
       \<and> (getattr val h (PyRef self) = Inr ''+'' \<and> get2 left val h self = Inr lv
            \<and> \<not> (isnumeric lv \<and> py_int lv = 0) \<and> get2 right val h self = Inr z
            \<longrightarrow> additive_identity h self = become_left h self)
       \<and> (getattr val h (PyRef self) = Inr ''*'' \<and> get2 left val h self = Inr u
            \<longrightarrow> multiplicative_identity h self = become_right h self)
       \<and> (getattr val h (PyRef self) = Inr ''*'' \<and> get2 left val h self = Inr lv
            \<and> \<not> (isnumeric lv \<and> py_int lv = 1) \<and> get2 right val h self = Inr u
            \<longrightarrow> multiplicative_identity h self = become_left h self)
       \<and> simplified_prefix [''+'', z, n] = Some (Inr n)
       \<and> simplified_prefix [''+'', ''0'', n] = Some (Inr n)
       \<and> simplified_prefix [''+'', n, z] = Some (Inr (if py_int n = 0 then z else n))
       \<and> simplified_prefix [''*'', u, n] = Some (Inr n)
       \<and> simplified_prefix [''*'', ''1'', n] = Some (Inr n)
       \<and> simplified_prefix [''*'', n, u] = Some (Inr (if py_int n = 1 then u else n))"
proof -
  have lit: "isnumeric ''0''" "py_int ''0'' = 0" "isnumeric ''1''" "py_int ''1'' = 1"
    by (simp_all add: isnumeric_def isdigit_def py_int_def)
  note defs = init_empty init_number init_operator prefix_str_number prefix_str_error
    prefix_str_operator simplify_binops.simps getattr_def get2_def set_left_def set_right_def
    set_val_def set_type_def simplified_def simplified_prefix_def become_left_def become_right_def
    additive_identity_def multiplicative_identity_def receiver_def
  have rules:
    "getattr val h (PyRef self) = Inr ''+'' \<and> get2 left val h self = Inr z
       \<longrightarrow> additive_identity h self = become_right h self"
    "getattr val h (PyRef self) = Inr ''+'' \<and> get2 left val h self = Inr lv
       \<and> \<not> (isnumeric lv \<and> py_int lv = 0) \<and> get2 right val h self = Inr z
       \<longrightarrow> additive_identity h self = become_left h self"
    "getattr val h (PyRef self) = Inr ''*'' \<and> get2 left val h self = Inr u
       \<longrightarrow> multiplicative_identity h self = become_right h self"
    "getattr val h (PyRef self) = Inr ''*'' \<and> get2 left val h self = Inr lv
       \<and> \<not> (isnumeric lv \<and> py_int lv = 1) \<and> get2 right val h self = Inr u
       \<longrightarrow> multiplicative_identity h self = become_left h self"
    using assms(1-4) by (auto simp: additive_identity_def multiplicative_identity_def)
  have pipeline:
    "simplified_prefix [''+'', z, n] = Some (Inr n)"
    "simplified_prefix [''+'', ''0'', n] = Some (Inr n)"
    "simplified_prefix [''+'', n, z] = Some (Inr (if py_int n = 0 then z else n))"
    "simplified_prefix [''*'', u, n] = Some (Inr n)"
    "simplified_prefix [''*'', ''1'', n] = Some (Inr n)"
    "simplified_prefix [''*'', n, u] = Some (Inr (if py_int n = 1 then u else n))"
    using assms lit numeric_not_op[of z] numeric_not_op[of u] numeric_not_op[of n]
      numeric_not_op[of "''0''"] numeric_not_op[of "''1''"]
    by (simp_all add: defs)
  from rules pipeline show ?thesis
    by (intro conjI)
qed

theorem identity_rules_compare_by_value_witness:
  "isnumeric ''00'' \<and> py_int ''00'' = 0 \<and> isnumeric ''01'' \<and> py_int ''01'' = 1 \<and> isnumeric ''7''
   \<and> getattr val
        [\<lparr>val = Some ''+'', type = Some operator, left = Some (PyRef 1), right = Some (PyRef 2)\<rparr>,
         \<lparr>val = Some ''00'', type = Some number, left = Some PyFalse, right = Some PyFalse\<rparr>,
         \<lparr>val = Some ''7'', type = Some number, left = Some PyFalse, right = Some PyFalse\<rparr>]
        (PyRef 0) = Inr ''+''
   \<and> get2 left val
        [\<lparr>val = Some ''+'', type = Some operator, left = Some (PyRef 1), right = Some (PyRef 2)\<rparr>,
         \<lparr>val = Some ''00'', type = Some number, left = Some PyFalse, right = Some PyFalse\<rparr>,
         \<lparr>val = Some ''7'', type = Some number, left = Some PyFalse, right = Some PyFalse\<rparr>]
        0 = Inr ''00''
   \<and> additive_identity
        [\<lparr>val = Some ''+'', type = Some operator, left = Some (PyRef 1), right = Some (PyRef 2)\<rparr>,
         \<lparr>val = Some ''00'', type = Some number, left = Some PyFalse, right = Some PyFalse\<rparr>,
         \<lparr>val = Some ''7'', type = Some number, left = Some PyFalse, right = Some PyFalse\<rparr>]
        0
       = Inr
        [\<lparr>val = Some ''7'', type = Some number, left = Some PyFalse, right = Some PyFalse\<rparr>,
         \<lparr>val = Some ''00'', type = Some number, left = Some PyFalse, right = Some PyFalse\<rparr>,
         \<lparr>val = Some ''7'', type = Some number, left = Some PyFalse, right = Some PyFalse\<rparr>]
   \<and> getattr val
        [\<lparr>val = Some ''*'', type = Some operator, left = Some (PyRef 1), right = Some (PyRef 2)\<rparr>,
         \<lparr>val = Some ''7'', type = Some number, left = Some PyFalse, right = Some PyFalse\<rparr>,
         \<lparr>val = Some ''01'', type = Some number, left = Some PyFalse, right = Some PyFalse\<rparr>]
        (PyRef 0) = Inr ''*''
   \<and> get2 left val
        [\<lparr>val = Some ''*'', type = Some operator, left = Some (PyRef 1), right = Some (PyRef 2)\<rparr>,
         \<lparr>val = Some ''7'', type = Some number, left = Some PyFalse, right = Some PyFalse\<rparr>,
         \<lparr>val = Some ''01'', type = Some number, left = Some PyFalse, right = Some PyFalse\<rparr>]
        0 = Inr ''7''
   \<and> \<not> (isnumeric ''7'' \<and> py_int ''7'' = 1)
   \<and> get2 right val
        [\<lparr>val = Some ''*'', type = Some operator, left = Some (PyRef 1), right = Some (PyRef 2)\<rparr>,
         \<lparr>val = Some ''7'', type = Some number, left = Some PyFalse, right = Some PyFalse\<rparr>,
         \<lparr>val = Some ''01'', type = Some number, left = Some PyFalse, right = Some PyFalse\<rparr>]
        0 = Inr ''01''
   \<and> multiplicative_identity
        [\<lparr>val = Some ''*'', type = Some operator, left = Some (PyRef 1), right = Some (PyRef 2)\<rparr>,
         \<lparr>val = Some ''7'', type = Some number, left = Some PyFalse, right = Some PyFalse\<rparr>,
         \<lparr>val = Some ''01'', type = Some number, left = Some PyFalse, right = Some PyFalse\<rparr>]
        0
       = Inr
        [\<lparr>val = Some ''7'', type = Some number, left = Some PyFalse, right = Some PyFalse\<rparr>,
         \<lparr>val = Some ''7'', type = Some number, left = Some PyFalse, right = Some PyFalse\<rparr>,
         \<lparr>val = Some ''01'', type = Some number, left = Some PyFalse, right = Some PyFalse\<rparr>]
   \<and> simplified_prefix [''+'', ''00'', ''7''] = Some (Inr ''7'')
   \<and> simplified_prefix [''+'', ''7'', ''00''] = Some (Inr ''7'')
   \<and> simplified_prefix [''*'', ''01'', ''7''] = Some (Inr ''7'')
   \<and> simplified_prefix [''*'', ''7'', ''01''] = Some (Inr ''7'')"
proof -
  let ?A = "[\<lparr>val = Some ''+'', type = Some operator, left = Some (PyRef 1), right = Some (PyRef 2)\<rparr>,
         \<lparr>val = Some ''00'', type = Some number, left = Some PyFalse, right = Some PyFalse\<rparr>,
         \<lparr>val = Some ''7'', type = Some number, left = Some PyFalse, right = Some PyFalse\<rparr>]"
  let ?M = "[\<lparr>val = Some ''*'', type = Some operator, left = Some (PyRef 1), right = Some (PyRef 2)\<rparr>,
         \<lparr>val = Some ''7'', type = Some number, left = Some PyFalse, right = Some PyFalse\<rparr>,
         \<lparr>val = Some ''01'', type = Some number, left = Some PyFalse, right = Some PyFalse\<rparr>]"
  have h: "isnumeric ''00''" "py_int ''00'' = 0" "isnumeric ''01''" "py_int ''01'' = 1" "isnumeric ''7''"
    and v: "py_int ''7'' = 7"
    by (simp_all add: isnumeric_def isdigit_def py_int_def)
  have a: "getattr val ?A (PyRef 0) = Inr ''+''" "get2 left val ?A 0 = Inr ''00''"
    by (simp_all add: getattr_def get2_def)
  have m: "getattr val ?M (PyRef 0) = Inr ''*''" "get2 left val ?M 0 = Inr ''7''"
    "get2 right val ?M 0 = Inr ''01''"
    by (simp_all add: getattr_def get2_def)
  have ra: "become_right ?A 0
       = Inr
        [\<lparr>val = Some ''7'', type = Some number, left = Some PyFalse, right = Some PyFalse\<rparr>,
         \<lparr>val = Some ''00'', type = Some number, left = Some PyFalse, right = Some PyFalse\<rparr>,
         \<lparr>val = Some ''7'', type = Some number, left = Some PyFalse, right = Some PyFalse\<rparr>]"
    by (simp add: become_right_def getattr_def get2_def set_val_def set_type_def set_left_def set_right_def)
  have rm: "become_left ?M 0
       = Inr
        [\<lparr>val = Some ''7'', type = Some number, left = Some PyFalse, right = Some PyFalse\<rparr>,
         \<lparr>val = Some ''7'', type = Some number, left = Some PyFalse, right = Some PyFalse\<rparr>,
         \<lparr>val = Some ''01'', type = Some number, left = Some PyFalse, right = Some PyFalse\<rparr>]"
    by (simp add: become_left_def getattr_def get2_def set_val_def set_type_def set_left_def set_right_def)
  from identity_rules_compare_by_value[OF h, of ?A 0 "''7''"]
    identity_rules_compare_by_value[OF h, of ?M 0 "''7''"] h v a m ra rm
  show ?thesis
    by simp
qed

end
